theory Spec2Isabelle
  imports Complex_Main "HOL-Library.AList"
begin

section \<open>Course scheduling optimizer: the embedding\<close>

text \<open>
  The theory follows \<^verbatim>\<open>src/app/scheduling.py\<close>, class \<^verbatim>\<open>SchedulingOptimizer\<close>.
  Python floats are read as reals, Python ints as \<open>int\<close>, table positions as \<open>nat\<close>.
  An exception of the source is the \<open>Inl\<close> branch of a sum.
\<close>

datatype py_error = KeyError | IndexError | AttributeError | ValueError

definition bind_err :: "py_error + 'a \<Rightarrow> ('a \<Rightarrow> py_error + 'b) \<Rightarrow> py_error + 'b" where
  "bind_err m f = (case m of Inl e \<Rightarrow> Inl e | Inr a \<Rightarrow> f a)"

fun map_err :: "('a \<Rightarrow> py_error + 'b) \<Rightarrow> 'a list \<Rightarrow> py_error + 'b list" where
  "map_err f [] = Inr []"
| "map_err f (a # as) =
     (case f a of Inl e \<Rightarrow> Inl e
      | Inr b \<Rightarrow> (case map_err f as of Inl e \<Rightarrow> Inl e | Inr bs \<Rightarrow> Inr (b # bs)))"

subsection \<open>The slot catalog (\<^verbatim>\<open>__init__\<close>)\<close>

record time_slot =
  ordinal :: nat
  code :: string
  label :: string
  days :: string
  start :: string
  finish :: string

definition mk_slot :: "nat \<Rightarrow> string \<Rightarrow> string \<Rightarrow> string \<Rightarrow> string \<Rightarrow> string \<Rightarrow> time_slot" where
  "mk_slot n c l d s f = \<lparr>ordinal = n, code = c, label = l, days = d, start = s, finish = f\<rparr>"

definition slot_times :: "time_slot list" where
  "slot_times =
    [mk_slot 1 ''s1'' ''MWF 9:00-10:15'' ''M/W/F'' ''9:00'' ''10:15'',
     mk_slot 2 ''s2'' ''TT 9:00-10:15'' ''T/TH'' ''9:00'' ''10:15'',
     mk_slot 3 ''s3'' ''MWF 10:30-11:45'' ''M/W/F'' ''10:30'' ''11:45'',
     mk_slot 4 ''s4'' ''TT 10:30-11:45'' ''T/TH'' ''10:30'' ''11:45'',
     mk_slot 5 ''s5'' ''MWF 12:00-1:15'' ''M/W/F'' ''12:00'' ''1:15'',
     mk_slot 6 ''s6'' ''TT 12:00-1:15'' ''T/TH'' ''12:00'' ''1:15'',
     mk_slot 7 ''s7'' ''MWF 1:30-2:45'' ''M/W/F'' ''1:30'' ''2:45'',
     mk_slot 8 ''s8'' ''TT 1:30-2:45'' ''T/TH'' ''1:30'' ''2:45'',
     mk_slot 9 ''s9'' ''MWF 3:00-4:15'' ''M/W/F'' ''3:00'' ''4:15'',
     mk_slot 10 ''s10'' ''TT 3:00-4:15'' ''T/TH'' ''3:00'' ''4:15'']"

definition slots :: "string list" where
  "slots = map code slot_times"

definition mwf_set :: "string list" where
  "mwf_set = map code (filter (\<lambda>i. days i = ''M/W/F'') slot_times)"

definition tt_set :: "string list" where
  "tt_set = map code (filter (\<lambda>i. days i = ''T/TH'') slot_times)"

definition mwf_slots :: "nat list" where
  "mwf_slots = map (\<lambda>i. ordinal i - 1) (filter (\<lambda>i. days i = ''M/W/F'') slot_times)"

definition tt_slots :: "nat list" where
  "tt_slots = map (\<lambda>i. ordinal i - 1) (filter (\<lambda>i. days i = ''T/TH'') slot_times)"

definition fas_slot :: "nat list" where
  "fas_slot = [9]"

definition starting_at :: "string \<Rightarrow> nat list" where
  "starting_at t = map (\<lambda>i. ordinal i - 1) (filter (\<lambda>i. start i = t) slot_times)"

definition t900 :: "nat list" where "t900 = starting_at ''9:00''"
definition t1030 :: "nat list" where "t1030 = starting_at ''10:30''"
definition t1200 :: "nat list" where "t1200 = starting_at ''12:00''"
definition t130 :: "nat list" where "t130 = starting_at ''1:30''"
definition t300 :: "nat list" where "t300 = starting_at ''3:00''"

subsection \<open>\<^verbatim>\<open>get_satisfaction\<close>\<close>

text \<open>
  A Python dict is an association list in insertion order, read with \<open>map_of\<close>.
  The argument \<open>r\<close> is the value that \<^verbatim>\<open>randint(1, 10)\<close> returns in this call; the source
  draws it only on the branch that uses it, and a missing key raises before the draw.
\<close>

type_synonym popularity = "(string \<times> real) list"

definition get_satisfaction :: "string \<Rightarrow> int \<Rightarrow> popularity \<Rightarrow> int \<Rightarrow> py_error + real" where
  "get_satisfaction slot preference slot_popularity r =
     (if preference = 0 then Inr 0
      else (case map_of slot_popularity slot of
              None \<Rightarrow> Inl KeyError
            | Some p \<Rightarrow>
                (let base_satisfaction = 5 - preference;
                     satisfaction = real_of_int base_satisfaction - p;
                     satisfaction = satisfaction + real_of_int r / 10
                 in Inr (max satisfaction 0))))"

subsection \<open>The optimization backend\<close>

text \<open>
  \<^verbatim>\<open>pywraplp.Solver\<close> is not part of the repository. The code hands it Boolean
  variables (keyed by a pair of positions, as in the dict \<^verbatim>\<open>x\<close>), a linear objective and
  linear constraints, and reads back a status, the value of each variable and the value
  of the objective. The backend is a parameter of the model: a function from the
  problem submitted to the response read back.
\<close>

datatype status = OPTIMAL | FEASIBLE | INFEASIBLE | UNBOUNDED | ABNORMAL | MODEL_INVALID | NOT_SOLVED

type_synonym var = "nat \<times> nat"
type_synonym linexpr = "(real \<times> var) list"

datatype relation = LE | GE | EQ

record lin_constraint =
  lhs :: linexpr
  rel :: relation
  rhs :: real

record problem =
  variables :: "var list"
  maximize :: bool
  objective :: linexpr
  constraints :: "lin_constraint list"

record response =
  status :: status
  solution_value :: "var \<Rightarrow> real"
  objective_value :: real

type_synonym solver = "problem \<Rightarrow> response"

definition eval_expr :: "(var \<Rightarrow> real) \<Rightarrow> linexpr \<Rightarrow> real" where
  "eval_expr sol e = sum_list (map (\<lambda>(c, v). c * sol v) e)"

definition holds :: "(var \<Rightarrow> real) \<Rightarrow> lin_constraint \<Rightarrow> bool" where
  "holds sol c =
     (case rel c of
        LE \<Rightarrow> eval_expr sol (lhs c) \<le> rhs c
      | GE \<Rightarrow> eval_expr sol (lhs c) \<ge> rhs c
      | EQ \<Rightarrow> eval_expr sol (lhs c) = rhs c)"

definition feasible :: "problem \<Rightarrow> (var \<Rightarrow> real) \<Rightarrow> bool" where
  "feasible p sol =
     (list_all (\<lambda>v. sol v = 0 \<or> sol v = 1) (variables p) \<and>
      list_all (holds sol) (constraints p))"

text \<open>
  What the theorems below rely on when the backend answers \<open>OPTIMAL\<close>: every Boolean
  variable is 0 or 1, every constraint holds, and the objective value reported is the
  objective at the solution. (That no feasible point is better is not needed.)
\<close>

definition certified :: "problem \<Rightarrow> response \<Rightarrow> bool" where
  "certified p r =
     (status r \<noteq> OPTIMAL \<or>
      (feasible p (solution_value r) \<and>
       objective_value r = eval_expr (solution_value r) (objective p)))"


subsection \<open>\<^verbatim>\<open>rankaggr_lp\<close>\<close>

datatype score = Score real | Infinite

definition sum_of :: "var list \<Rightarrow> linexpr" where
  "sum_of vs = map (\<lambda>v. (1, v)) vs"

definition kemeny_vars :: "nat \<Rightarrow> var list" where
  "kemeny_vars n_candidates =
     concat (map (\<lambda>i. concat (map (\<lambda>j. if i \<noteq> j then [(i, j)] else [])
       [0..<n_candidates])) [0..<n_candidates])"

definition kemeny_obj_terms :: "nat \<Rightarrow> nat \<Rightarrow> int list list \<Rightarrow> var list" where
  "kemeny_obj_terms n_voters n_candidates ranks =
     concat (map (\<lambda>voter. concat (map (\<lambda>i. concat (map (\<lambda>j.
       if i \<noteq> j \<and> ranks ! voter ! i > 0 \<and> ranks ! voter ! j > 0 then
         (if ranks ! voter ! i < ranks ! voter ! j then [(j, i)]
          else if ranks ! voter ! i > ranks ! voter ! j then [(i, j)]
          else [])
       else [])
       [0..<n_candidates])) [0..<n_candidates])) [0..<n_voters])"

definition kemeny_constraints :: "nat \<Rightarrow> lin_constraint list" where
  "kemeny_constraints n_candidates =
     concat (map (\<lambda>i. concat (map (\<lambda>j. concat (map (\<lambda>k.
       if j \<noteq> i \<and> j \<noteq> k \<and> i \<noteq> k
       then [\<lparr>lhs = sum_of [(i, j), (j, k), (k, i)], rel = LE, rhs = 2\<rparr>]
       else [])
       [0..<n_candidates])) [0..<n_candidates])) [0..<n_candidates])"

definition kemeny_problem :: "nat \<Rightarrow> nat \<Rightarrow> int list list \<Rightarrow> problem" where
  "kemeny_problem n_voters n_candidates ranks =
     \<lparr>variables = kemeny_vars n_candidates, maximize = False,
      objective = sum_of (kemeny_obj_terms n_voters n_candidates ranks),
      constraints = kemeny_constraints n_candidates\<rparr>"

definition consensus_scores :: "nat \<Rightarrow> (var \<Rightarrow> real) \<Rightarrow> real list" where
  "consensus_scores n_candidates sol =
     map (\<lambda>j. real (length (filter (\<lambda>i. i \<noteq> j \<and> sol (i, j) > 1 / 2) [0..<n_candidates])))
       [0..<n_candidates]"

definition avg_ranks :: "nat \<Rightarrow> int list list \<Rightarrow> real list" where
  "avg_ranks n_candidates ranks =
     map (\<lambda>j. let valid_prefs = filter (\<lambda>v. v > 0) (map (\<lambda>row. row ! j) ranks)
              in if length valid_prefs > 0
                 then real_of_int (sum_list valid_prefs) / real (length valid_prefs)
                 else 5 / 2)
       [0..<n_candidates]"

text \<open>
  A numpy array carries its shape; the model passes \<open>(n_voters, n_candidates)\<close> beside
  the rows. \<open>ranks ! voter ! i\<close> is only read inside the shape.
\<close>

definition rankaggr_lp :: "solver \<Rightarrow> nat \<times> nat \<Rightarrow> int list list \<Rightarrow> score \<times> real list" where
  "rankaggr_lp solve shape ranks =
     (let n_voters = fst shape; n_candidates = snd shape in
      if n_voters = 0 \<or> n_candidates = 0 then (Infinite, replicate n_candidates 0)
      else if kemeny_obj_terms n_voters n_candidates ranks = []
      then (Score 0, replicate n_candidates 1)
      else
        (let r = solve (kemeny_problem n_voters n_candidates ranks) in
         if status r = OPTIMAL
         then (Score (objective_value r), consensus_scores n_candidates (solution_value r))
         else (Infinite, avg_ranks n_candidates ranks)))"

subsection \<open>\<^verbatim>\<open>get_slots_popularity\<close>\<close>

text \<open>
  A pandas table: the row labels, the column names and the rows of values. A table is
  rectangular: every row has one value per column and there is one label per row.
\<close>

record table =
  index :: "string list"
  columns :: "string list"
  vals :: "int list list"


definition fromkeys :: "string list \<Rightarrow> real \<Rightarrow> popularity" where
  "fromkeys keys v = fold (\<lambda>k d. AList.update k v d) keys []"

definition transposed :: "nat \<Rightarrow> int list list \<Rightarrow> int list list" where
  "transposed n_cols rows = map (\<lambda>c. map (\<lambda>row. row ! c) rows) [0..<n_cols]"

fun rescale :: "real \<Rightarrow> real \<Rightarrow> real list \<Rightarrow> nat \<Rightarrow> string list \<Rightarrow> popularity
    \<Rightarrow> py_error + popularity" where
  "rescale max_rank min_rank consensus_ranks i [] slots_pop = Inr slots_pop"
| "rescale max_rank min_rank consensus_ranks i (slot # rest) slots_pop =
     (if i < length consensus_ranks
      then rescale max_rank min_rank consensus_ranks (Suc i) rest
             (AList.update slot ((max_rank - consensus_ranks ! i) / (max_rank - min_rank)) slots_pop)
      else Inl IndexError)"

definition popularity_of :: "string list \<Rightarrow> real list \<Rightarrow> py_error + popularity" where
  "popularity_of cols consensus_ranks =
     (case consensus_ranks of
        [] \<Rightarrow> Inl ValueError
      | c # cs \<Rightarrow>
          (let max_rank = fold max cs c; min_rank = fold min cs c in
           if max_rank = min_rank then Inr (fromkeys cols (1 / 2))
           else rescale max_rank min_rank consensus_ranks 0 cols []))"

definition get_slots_popularity :: "solver \<Rightarrow> table \<Rightarrow> py_error + (popularity \<times> score)" where
  "get_slots_popularity solve data =
     (let ranks = vals data;
          valid_ranks = filter (\<lambda>row. \<not> list_all (\<lambda>v. v = 0) row) ranks in
      if length valid_ranks = 0 then Inr (fromkeys (columns data) (1 / 2), Score 0)
      else
        (let n_cols = length (columns data);
             (score, consensus_ranks) =
               rankaggr_lp solve (n_cols, length valid_ranks) (transposed n_cols valid_ranks)
         in bind_err (popularity_of (columns data) consensus_ranks)
              (\<lambda>slots_pop. Inr (slots_pop, score))))"

subsection \<open>\<^verbatim>\<open>optimize_schedule\<close> and \<^verbatim>\<open>calculate_stats\<close>\<close>

text \<open>
  The faculty roster is optional and may lack its \<^verbatim>\<open>Voting\<close> column. The course table
  is read through \<^verbatim>\<open>course in course_data.index\<close> and \<^verbatim>\<open>course_data.loc[course, 'Faculty']\<close>
  only: a partial map from course to faculty (its index taken as unique).
\<close>

record faculty_table =
  names :: "string list"
  Voting :: "int list option"

type_synonym course_table = "(string \<times> string) list"

text \<open>\<^verbatim>\<open>list.index\<close>: the first position of the value (it is only called on a member).\<close>

fun first_index :: "'a list \<Rightarrow> 'a \<Rightarrow> nat" where
  "first_index [] a = 0"
| "first_index (x # xs) a = (if x = a then 0 else Suc (first_index xs a))"

definition voting_faculty_names :: "faculty_table \<Rightarrow> int list \<Rightarrow> string list" where
  "voting_faculty_names f vs = map fst (filter (\<lambda>(n, v). v > 0) (zip (names f) vs))"

text \<open>
  The test of lines 150 to 152: the course is in the course table and its faculty is
  one of the names whose \<^verbatim>\<open>Voting\<close> value is positive.
\<close>

definition taught_by_voting :: "course_table \<Rightarrow> faculty_table \<Rightarrow> int list \<Rightarrow> string \<Rightarrow> bool" where
  "taught_by_voting course_data f vs course =
     (case map_of course_data course of
        None \<Rightarrow> False
      | Some faculty_for_course \<Rightarrow> faculty_for_course \<in> set (voting_faculty_names f vs))"

definition voting_courses_of :: "string list \<Rightarrow> course_table \<Rightarrow> faculty_table option \<Rightarrow> nat list" where
  "voting_courses_of course_labels course_data faculty_data =
     (case faculty_data of
        None \<Rightarrow> []
      | Some f \<Rightarrow>
          (case Voting f of
             None \<Rightarrow> []
           | Some vs \<Rightarrow>
               concat (map (\<lambda>course.
                 if taught_by_voting course_data f vs course
                 then [first_index course_labels course] else [])
                 course_labels)))"


text \<open>
  \<^verbatim>\<open>selection_data[slot].tolist()\<close>: the column of that name. A missing name raises
  \<^verbatim>\<open>KeyError\<close>; a name carried by several columns selects a table, which has no
  \<^verbatim>\<open>tolist\<close>.
\<close>

definition get_column :: "table \<Rightarrow> string \<Rightarrow> py_error + int list" where
  "get_column data slot =
     (if slot \<notin> set (columns data) then Inl KeyError
      else if count_list (columns data) slot > 1 then Inl AttributeError
      else Inr (map (\<lambda>row. row ! first_index (columns data) slot) (vals data)))"

text \<open>\<open>noise s i\<close> is the draw of \<^verbatim>\<open>randint(1, 10)\<close> in the call for slot \<open>s\<close>, course \<open>i\<close>.\<close>

definition satisfaction_matrix_of :: "(nat \<Rightarrow> nat \<Rightarrow> int) \<Rightarrow> table \<Rightarrow> popularity
    \<Rightarrow> py_error + real list list" where
  "satisfaction_matrix_of noise selection_data pop =
     (let num_courses = length (index selection_data);
          num_slots = length (columns selection_data) in
      map_err (\<lambda>s.
        if s < length slots then
          (let slot = slots ! s in
           bind_err (get_column selection_data slot) (\<lambda>old_row.
             map_err (\<lambda>i. get_satisfaction slot (old_row ! i) pop (noise s i)) [0..<num_courses]))
        else Inl IndexError) [0..<num_slots])"

definition set_min :: "nat \<Rightarrow> int" where
  "set_min num_courses = \<lceil>real num_courses / 2\<rceil> - 1"

definition stime_min :: "nat \<Rightarrow> int" where
  "stime_min num_courses = \<lfloor>real num_courses / 5\<rfloor>"

definition stime_max :: "nat \<Rightarrow> int" where
  "stime_max num_courses = stime_min num_courses + 2"

definition assignment_vars :: "nat \<Rightarrow> nat \<Rightarrow> var list" where
  "assignment_vars num_slots num_courses =
     concat (map (\<lambda>i. map (\<lambda>j. (i, j)) [0..<num_courses]) [0..<num_slots])"

text \<open>Reading \<^verbatim>\<open>x[i, j]\<close> for a key that was never created raises \<^verbatim>\<open>KeyError\<close>.\<close>

definition sum_x :: "var list \<Rightarrow> nat list \<Rightarrow> nat list \<Rightarrow> py_error + linexpr" where
  "sum_x x rows cols =
     (let keys = concat (map (\<lambda>i. map (\<lambda>j. (i, j)) cols) rows) in
      if list_all (\<lambda>k. k \<in> set x) keys then Inr (sum_of keys) else Inl KeyError)"

definition group_constraint :: "var list \<Rightarrow> nat list \<Rightarrow> nat list \<Rightarrow> relation \<Rightarrow> int
    \<Rightarrow> py_error + lin_constraint" where
  "group_constraint x rows cols r bound =
     bind_err (sum_x x rows cols) (\<lambda>e. Inr \<lparr>lhs = e, rel = r, rhs = real_of_int bound\<rparr>)"

definition time_groups :: "nat list list" where
  "time_groups = [t900, t1030, t1200, t130, t300]"

definition assignment_problem :: "nat \<Rightarrow> nat \<Rightarrow> real list list \<Rightarrow> nat list \<Rightarrow> py_error + problem" where
  "assignment_problem num_slots num_courses satisfaction_matrix voting_courses =
     (let x = assignment_vars num_slots num_courses;
          courses = [0..<num_courses];
          obj = map (\<lambda>(i, j). (satisfaction_matrix ! i ! j, (i, j))) x;
          one_slot = map (\<lambda>j. \<lparr>lhs = sum_of (map (\<lambda>i. (i, j)) [0..<num_slots]),
                                 rel = EQ, rhs = 1\<rparr>) courses
      in
      bind_err (group_constraint x mwf_slots courses GE (set_min num_courses)) (\<lambda>mwf.
      bind_err (group_constraint x tt_slots courses GE (set_min num_courses)) (\<lambda>tt.
      bind_err (map_err (\<lambda>time_slots.
          bind_err (group_constraint x time_slots courses GE (stime_min num_courses)) (\<lambda>lo.
          bind_err (group_constraint x time_slots courses LE (stime_max num_courses)) (\<lambda>hi.
          Inr [lo, hi]))) time_groups) (\<lambda>times.
      bind_err (if voting_courses \<noteq> []
                then bind_err (group_constraint x fas_slot voting_courses EQ 0) (\<lambda>c. Inr [c])
                else Inr []) (\<lambda>fas.
      Inr \<lparr>variables = x, maximize = True, objective = obj,
           constraints = one_slot @ [mwf, tt] @ concat times @ fas\<rparr>)))))"

record entry =
  Course :: string
  Slot :: string
  Time :: string
  Satisfaction :: real

definition extract_results :: "string list \<Rightarrow> nat \<Rightarrow> nat \<Rightarrow> real list list \<Rightarrow> (var \<Rightarrow> real)
    \<Rightarrow> entry list" where
  "extract_results course_labels num_slots num_courses satisfaction_matrix sol =
     concat (map (\<lambda>i. concat (map (\<lambda>j.
       if sol (i, j) > 0
       then [\<lparr>Course = course_labels ! j, Slot = code (slot_times ! i),
              Time = label (slot_times ! i), Satisfaction = satisfaction_matrix ! i ! j\<rparr>]
       else []) [0..<num_courses])) [0..<num_slots])"

definition output_of :: "nat \<Rightarrow> nat \<Rightarrow> (var \<Rightarrow> real) \<Rightarrow> real list list" where
  "output_of num_slots num_courses sol =
     map (\<lambda>j. map (\<lambda>i. if sol (i, j) > 0 then 1 else 0) [0..<num_slots]) [0..<num_courses]"

text \<open>\<^verbatim>\<open>sub in s\<close> on strings.\<close>

fun starts_with :: "string \<Rightarrow> string \<Rightarrow> bool" where
  "starts_with s [] = True"
| "starts_with [] (c # sub) = False"
| "starts_with (d # s) (c # sub) = (d = c \<and> starts_with s sub)"

fun contains :: "string \<Rightarrow> string \<Rightarrow> bool" where
  "contains [] sub = (sub = [])"
| "contains (d # s) sub = (starts_with (d # s) sub \<or> contains s sub)"

record stats =
  mwf_count :: nat
  tt_count :: nat
  time_counts :: "(string \<times> nat) list"
  slot_counts :: "real list"
  balance_diff :: nat
  time_diff :: nat

definition count_where :: "(entry \<Rightarrow> bool) \<Rightarrow> entry list \<Rightarrow> nat" where
  "count_where P results = length (filter P results)"

definition calculate_stats :: "entry list \<Rightarrow> real list list \<Rightarrow> nat \<Rightarrow> nat \<Rightarrow> stats" where
  "calculate_stats results output num_courses num_slots =
     (let mwf = count_where (\<lambda>r. Slot r \<in> set mwf_set) results;
          tt = count_where (\<lambda>r. Slot r \<in> set tt_set) results;
          tc = map (\<lambda>t. (t, count_where (\<lambda>r. contains (Time r) t) results))
                 [''9:00'', ''10:30'', ''12:00'', ''1:30'', ''3:00''];
          counts = map snd tc
      in \<lparr>mwf_count = mwf, tt_count = tt, time_counts = tc,
          slot_counts = map (\<lambda>i. sum_list (map (\<lambda>row. row ! i) output)) [0..<num_slots],
          balance_diff = nat \<bar>int mwf - int tt\<bar>,
          time_diff = fold max counts 0 - fold min counts (hd counts)\<rparr>)"

text \<open>The result record, without \<^verbatim>\<open>solve_time\<close> (the backend's wall clock).\<close>

record result =
  results :: "entry list"
  stats :: stats
  output_matrix :: "real list list"
  satisfaction_total :: real
  slot_popularity :: popularity
  kemeny_score :: score

text \<open>
  \<open>solve_k\<close> answers the consensus problem, \<open>solve_a\<close> the assignment problem. The value
  returned is the pair of the source: the record and no message, or no record and the
  message.
\<close>

definition optimize_schedule :: "solver \<Rightarrow> solver \<Rightarrow> (nat \<Rightarrow> nat \<Rightarrow> int) \<Rightarrow> table \<Rightarrow> course_table
    \<Rightarrow> faculty_table option \<Rightarrow> py_error + (result option \<times> string option)" where
  "optimize_schedule solve_k solve_a noise selection_data course_data faculty_data =
     (let num_courses = length (index selection_data);
          num_slots = length (columns selection_data);
          course_labels = index selection_data;
          voting_courses = voting_courses_of course_labels course_data faculty_data
      in
      bind_err (get_slots_popularity solve_k selection_data) (\<lambda>(pop, score).
      bind_err (satisfaction_matrix_of noise selection_data pop) (\<lambda>satisfaction_matrix.
      bind_err (assignment_problem num_slots num_courses satisfaction_matrix voting_courses) (\<lambda>p.
        (let r = solve_a p in
         if status r \<noteq> OPTIMAL then Inr (None, Some ''Optimization failed'')
         else
           (let res = extract_results course_labels num_slots num_courses satisfaction_matrix
                        (solution_value r);
                output = output_of num_slots num_courses (solution_value r)
            in Inr (Some \<lparr>results = res,
                          stats = calculate_stats res output num_courses num_slots,
                          output_matrix = output,
                          satisfaction_total = objective_value r,
                          slot_popularity = pop,
                          kemeny_score = score\<rparr>, None)))))))"

text \<open>
  The problem on which \<open>optimize_schedule\<close> calls the assignment backend at line 206
  (\<^verbatim>\<open>status = solver.Solve()\<close>): lines 137 to 203 build it, and no test stands between
  them and the call.
\<close>

definition submitted_problem :: "solver \<Rightarrow> (nat \<Rightarrow> nat \<Rightarrow> int) \<Rightarrow> table \<Rightarrow> course_table
    \<Rightarrow> faculty_table option \<Rightarrow> py_error + problem" where
  "submitted_problem solve_k noise selection_data course_data faculty_data =
     bind_err (get_slots_popularity solve_k selection_data) (\<lambda>(pop, score).
     bind_err (satisfaction_matrix_of noise selection_data pop) (\<lambda>satisfaction_matrix.
       assignment_problem (length (columns selection_data)) (length (index selection_data))
         satisfaction_matrix
         (voting_courses_of (index selection_data) course_data faculty_data)))"

subsection \<open>The consensus step as the specification words it\<close>

text \<open>
  The specification takes each non-degenerate course row as a voter and each slot as a
  candidate: the rows go to \<open>rankaggr_lp\<close> as they are, one voter per row. This
  definition follows those words, to be set beside \<open>get_slots_popularity\<close>.
\<close>

definition spec_slots_popularity :: "solver \<Rightarrow> table \<Rightarrow> py_error + (popularity \<times> score)" where
  "spec_slots_popularity solve data =
     (let valid_ranks = filter (\<lambda>row. \<not> list_all (\<lambda>v. v = 0) row) (vals data) in
      if length valid_ranks = 0 then Inr (fromkeys (columns data) (1 / 2), Score 0)
      else
        (let (score, consensus_ranks) =
               rankaggr_lp solve (length valid_ranks, length (columns data)) valid_ranks
         in bind_err (popularity_of (columns data) consensus_ranks)
              (\<lambda>slots_pop. Inr (slots_pop, score))))"

subsection \<open>Backends and tables of the examples\<close>

text \<open>A backend that never solves anything.\<close>

definition idle_solver :: solver where
  "idle_solver p = \<lparr>status = NOT_SOLVED, solution_value = (\<lambda>v. 0), objective_value = 0\<rparr>"

text \<open>
  A backend that proposes one fixed assignment (the listed variables at 1, the others
  at 0) and answers \<open>OPTIMAL\<close> only when the problem accepts it.
\<close>

definition checking_solver :: "var list \<Rightarrow> solver" where
  "checking_solver chosen p =
     (let sol = (\<lambda>v. if v \<in> set chosen then 1 else 0) in
      if feasible p sol
      then \<lparr>status = OPTIMAL, solution_value = sol, objective_value = eval_expr sol (objective p)\<rparr>
      else \<lparr>status = INFEASIBLE, solution_value = (\<lambda>v. 0), objective_value = 0\<rparr>)"

definition zero_table :: table where
  "zero_table = \<lparr>index = [''C1''], columns = [''s1'', ''s2''], vals = [[0, 0]]\<rparr>"

definition two_rows :: table where
  "two_rows = \<lparr>index = [''A'', ''B''], columns = slots,
     vals = [[1, 0, 0, 0, 0, 0, 0, 0, 0, 0], [2, 0, 0, 0, 0, 0, 0, 0, 0, 0]]\<rparr>"

definition empty_table :: table where
  "empty_table = \<lparr>index = [], columns = slots, vals = []\<rparr>"

definition demo_table :: table where
  "demo_table = \<lparr>index = [''C1'', ''C2''], columns = slots,
     vals = [[1, 2, 0, 0, 0, 0, 0, 0, 0, 0], [0, 0, 0, 0, 0, 0, 0, 0, 2, 1]]\<rparr>"

definition demo_courses :: course_table where
  "demo_courses = [(''C1'', ''Ana''), (''C2'', ''Bo'')]"

definition demo_faculty :: faculty_table where
  "demo_faculty = \<lparr>names = [''Ana'', ''Bo''], Voting = Some [1, 0]\<rparr>"

definition demo_stats :: stats where
  "demo_stats =
     \<lparr>mwf_count = 1, tt_count = 1,
      time_counts = [(''9:00'', 1), (''10:30'', 0), (''12:00'', 0), (''1:30'', 0), (''3:00'', 1)],
      slot_counts = [1, 0, 0, 0, 0, 0, 0, 0, 0, 1],
      balance_diff = 0, time_diff = 1\<rparr>"

definition demo_result :: "string \<Rightarrow> string \<Rightarrow> result" where
  "demo_result a b =
     \<lparr>results =
        [\<lparr>Course = a, Slot = ''s1'', Time = ''MWF 9:00-10:15'', Satisfaction = 4\<rparr>,
         \<lparr>Course = b, Slot = ''s10'', Time = ''TT 3:00-4:15'', Satisfaction = 4\<rparr>],
      stats = demo_stats,
      output_matrix = [[1, 0, 0, 0, 0, 0, 0, 0, 0, 0], [0, 0, 0, 0, 0, 0, 0, 0, 0, 1]],
      satisfaction_total = 8,
      slot_popularity = fromkeys slots (1 / 2),
      kemeny_score = Score 0\<rparr>"

text \<open>The assignment problem that \<open>optimize_schedule\<close> builds when there is no course.\<close>

definition empty_problem :: problem where
  "empty_problem =
     \<lparr>variables = [], maximize = True, objective = [],
      constraints =
        [\<lparr>lhs = [], rel = GE, rhs = - 1\<rparr>, \<lparr>lhs = [], rel = GE, rhs = - 1\<rparr>,
         \<lparr>lhs = [], rel = GE, rhs = 0\<rparr>, \<lparr>lhs = [], rel = LE, rhs = 2\<rparr>,
         \<lparr>lhs = [], rel = GE, rhs = 0\<rparr>, \<lparr>lhs = [], rel = LE, rhs = 2\<rparr>,
         \<lparr>lhs = [], rel = GE, rhs = 0\<rparr>, \<lparr>lhs = [], rel = LE, rhs = 2\<rparr>,
         \<lparr>lhs = [], rel = GE, rhs = 0\<rparr>, \<lparr>lhs = [], rel = LE, rhs = 2\<rparr>,
         \<lparr>lhs = [], rel = GE, rhs = 0\<rparr>, \<lparr>lhs = [], rel = LE, rhs = 2\<rparr>]\<rparr>"

definition demo_sat :: "real list list" where
  "demo_sat = [[4, 0], [3, 0], [0, 0], [0, 0], [0, 0], [0, 0], [0, 0], [0, 0], [0, 3], [0, 4]]"

section \<open>Properties\<close>

subsection \<open>Auxiliary facts\<close>

lemma map_err_all:
  "(\<And>a. a \<in> set as \<Longrightarrow> f a = Inr (g a)) \<Longrightarrow> map_err f as = Inr (map g as)"
  by (induction as) auto

lemma concat_map_Nil: "concat (map (\<lambda>i. []) xs) = []"
  by (induction xs) auto

lemma map_of_fold_update:
  "map_of (fold (\<lambda>k d. AList.update k v d) keys d0) k =
     (if k \<in> set keys then Some v else map_of d0 k)"
  by (induction keys arbitrary: d0) (auto simp: update_conv')

lemma map_of_fromkeys: "map_of (fromkeys keys v) k = (if k \<in> set keys then Some v else None)"
  by (simp add: fromkeys_def map_of_fold_update)

lemma checking_solver_certified: "certified p (checking_solver chosen p)"
  by (simp add: certified_def checking_solver_def Let_def)

lemma optimize_schedule_Some:
  assumes "optimize_schedule solve_k solve_a noise sel cd fd = Inr (Some res, msg)"
  obtains pop score sat p where
    "get_slots_popularity solve_k sel = Inr (pop, score)"
    "satisfaction_matrix_of noise sel pop = Inr sat"
    "assignment_problem (length (columns sel)) (length (index sel)) sat
       (voting_courses_of (index sel) cd fd) = Inr p"
    "status (solve_a p) = OPTIMAL"
    "results res = extract_results (index sel) (length (columns sel)) (length (index sel)) sat
       (solution_value (solve_a p))"
    "stats res = calculate_stats (results res)
       (output_of (length (columns sel)) (length (index sel)) (solution_value (solve_a p)))
       (length (index sel)) (length (columns sel))"
    "satisfaction_total res = objective_value (solve_a p)"
    "msg = None"
  using assms
  by (auto simp: optimize_schedule_def bind_err_def Let_def
      split: sum.splits prod.splits if_splits)

lemma demo_run_solved:
  "optimize_schedule (checking_solver []) (checking_solver [(0, 0), (9, 1)]) (\<lambda>s i. 5)
     demo_table demo_courses (Some demo_faculty) = Inr (Some (demo_result ''C1'' ''C2''), None)"
  by code_simp

lemma voting_courses_of_Nil: "voting_courses_of [] cd fd = []"
  by (simp add: voting_courses_of_def split: option.splits)

lemma assignment_vars_0: "assignment_vars n 0 = []"
  by (simp add: assignment_vars_def)

lemma group_constraint_0:
  "group_constraint [] rows [] r b = Inr \<lparr>lhs = [], rel = r, rhs = real_of_int b\<rparr>"
  by (simp add: group_constraint_def sum_x_def bind_err_def sum_of_def concat_map_Nil)

lemma assignment_problem_0: "assignment_problem n 0 sat [] = Inr empty_problem"
  by (simp add: assignment_problem_def assignment_vars_0 group_constraint_0 bind_err_def
      time_groups_def set_min_def stime_min_def stime_max_def empty_problem_def sum_of_def)

lemma satisfaction_matrix_0:
  assumes "index sel = []"
    and "length (columns sel) \<le> length slots"
    and "\<And>s. s < length (columns sel) \<Longrightarrow> count_list (columns sel) (slots ! s) = 1"
  shows "satisfaction_matrix_of noise sel pop = Inr (replicate (length (columns sel)) [])"
proof -
  have "map_err (\<lambda>s.
        if s < length slots then
          (let slot = slots ! s in
           bind_err (get_column sel slot) (\<lambda>old_row.
             map_err (\<lambda>i. get_satisfaction slot (old_row ! i) pop (noise s i)) [0..<0]))
        else Inl IndexError) [0..<length (columns sel)]
     = Inr (map (\<lambda>s. []) [0..<length (columns sel)])"
  proof (rule map_err_all)
    fix s assume "s \<in> set [0..<length (columns sel)]"
    then have s: "s < length (columns sel)" by simp
    then have c: "count_list (columns sel) (slots ! s) = 1" by (rule assms(3))
    then have "slots ! s \<in> set (columns sel)"
      by (metis count_list_0_iff zero_neq_one)
    with c s assms(2) show "(if s < length slots then
          (let slot = slots ! s in
           bind_err (get_column sel slot) (\<lambda>old_row.
             map_err (\<lambda>i. get_satisfaction slot (old_row ! i) pop (noise s i)) [0..<0]))
        else Inl IndexError) = Inr []"
      by (simp add: get_column_def bind_err_def Let_def)
  qed
  then show ?thesis
    using assms(1) by (simp add: satisfaction_matrix_of_def Let_def map_replicate_trivial)
qed

subsection \<open>The consensus step under the all-zero optimum\<close>










text \<open>
  The all-zero point is one optimum among others. On a table of ten slots and two ranked
  courses the problem built has the two courses as its candidates, and a backend
  reporting the optimum in which course \<open>A\<close> precedes course \<open>B\<close> would have the loss
  counts, one per course, read at the slot positions, past their end; with the rows taken
  as the voters no voter ranks two slots and nothing is solved.
\<close>

lemma get_slots_popularity_other_optimum:
  "get_slots_popularity (checking_solver [(0, 1)]) two_rows = Inl IndexError \<and>
   spec_slots_popularity (checking_solver [(0, 1)]) two_rows =
     Inr (fromkeys slots (1 / 2), Score 0)"
  by code_simp

subsection \<open>The assignment problem and the entries read from its solution\<close>

lemma bind_err_Inr: "bind_err m f = Inr y \<longleftrightarrow> (\<exists>x. m = Inr x \<and> f x = Inr y)"
  by (cases m) (simp_all add: bind_err_def)

lemma map_err_set:
  "map_err f xs = Inr ys \<Longrightarrow> x \<in> set xs \<Longrightarrow> \<exists>y \<in> set ys. f x = Inr y"
  by (induction xs arbitrary: ys) (auto split: sum.splits)

lemma group_constraint_Inr:
  assumes "group_constraint x rows cols r b = Inr c"
  shows "c = \<lparr>lhs = sum_of (concat (map (\<lambda>i. map (\<lambda>j. (i, j)) cols) rows)), rel = r,
              rhs = real_of_int b\<rparr> \<and>
         set (concat (map (\<lambda>i. map (\<lambda>j. (i, j)) cols) rows)) \<subseteq> set x"
  using assms
  by (auto simp: group_constraint_def sum_x_def bind_err_def Let_def list_all_iff
      split: if_splits)

lemma eval_expr_append: "eval_expr sol (a @ b) = eval_expr sol a + eval_expr sol b"
  by (simp add: eval_expr_def)

lemma sum_of_append: "sum_of (a @ b) = sum_of a @ sum_of b"
  by (simp add: sum_of_def)

lemma eval_sum_of_row: "eval_expr sol (sum_of (map (\<lambda>j. (i, j)) cols)) = sum_list (map (\<lambda>j. sol (i, j)) cols)"
  by (simp add: eval_expr_def sum_of_def comp_def)

lemma eval_sum_of_keys:
  "eval_expr sol (sum_of (concat (map (\<lambda>i. map (\<lambda>j. (i, j)) cols) rows))) =
     sum_list (map (\<lambda>i. sum_list (map (\<lambda>j. sol (i, j)) cols)) rows)"
proof (induction rows)
  case Nil
  show ?case by (simp add: eval_expr_def sum_of_def)
next
  case (Cons i rows)
  then show ?case by (simp add: sum_of_append eval_expr_append eval_sum_of_row)
qed

lemma inner_count:
  "length (filter P (concat (map (\<lambda>j. if c j then [e j] else []) js))) =
     length (filter (\<lambda>j. c j \<and> P (e j)) js)"
  by (induction js) auto

lemma count_extract:
  "length (filter (\<lambda>e. Slot e \<in> A) (extract_results labels S C sat sol)) =
     sum_list (map (\<lambda>i. if code (slot_times ! i) \<in> A
                        then length (filter (\<lambda>j. sol (i, j) > 0) [0..<C]) else 0) [0..<S])"
proof -
  have "\<And>i. length (filter (\<lambda>e. Slot e \<in> A) (concat (map (\<lambda>j.
       if sol (i, j) > 0
       then [\<lparr>Course = labels ! j, Slot = code (slot_times ! i),
              Time = label (slot_times ! i), Satisfaction = sat ! i ! j\<rparr>]
       else []) [0..<C]))) =
     (if code (slot_times ! i) \<in> A then length (filter (\<lambda>j. sol (i, j) > 0) [0..<C]) else 0)"
    by (simp add: inner_count)
  then show ?thesis
    by (simp add: extract_results_def filter_concat length_concat comp_def)
qed

lemma bool_sum:
  "(\<forall>j \<in> set js. sol (i, j) = 0 \<or> sol (i, j) = (1::real)) \<Longrightarrow>
     sum_list (map (\<lambda>j. sol (i, j)) js) = real (length (filter (\<lambda>j. sol (i, j) > 0) js))"
  by (induction js) auto

lemma assignment_vars_mem: "(i, j) \<in> set (assignment_vars S C) \<longleftrightarrow> i < S \<and> j < C"
  by (auto simp: assignment_vars_def image_iff)

lemma slots_facts: "length slots = 10" "distinct slots" "length slot_times = 10"
  by (simp_all add: slots_def slot_times_def mk_slot_def)

lemma slots_nth: "i < 10 \<Longrightarrow> slots ! i = code (slot_times ! i)"
  by (simp add: slots_def slots_facts)

lemma group_count:
  assumes g: "filter (\<lambda>i. i \<in> set g) [0..<10] = g"
    and bool: "\<forall>v \<in> set (assignment_vars 10 C). sol v = 0 \<or> sol v = 1"
  shows "real (length (filter (\<lambda>e. Slot e \<in> set (map ((!) slots) g))
           (extract_results labels 10 C sat sol))) =
         eval_expr sol (sum_of (concat (map (\<lambda>i. map (\<lambda>j. (i, j)) [0..<C]) g)))"
proof -
  let ?n = "\<lambda>i. length (filter (\<lambda>j. sol (i, j) > 0) [0..<C])"
  have sub: "\<And>i. i \<in> set g \<Longrightarrow> i < 10"
  proof -
    fix i assume "i \<in> set g"
    then have "i \<in> set (filter (\<lambda>i. i \<in> set g) [0..<10])" using g by simp
    then show "i < 10" by simp
  qed
  have G: "(code (slot_times ! i) \<in> (!) slots ` set g) = (i \<in> set g)" if "i < 10" for i
  proof
    assume "code (slot_times ! i) \<in> (!) slots ` set g"
    then have "slots ! i \<in> (!) slots ` set g"
      using that by (simp add: slots_nth)
    then obtain k where k: "k \<in> set g" "slots ! k = slots ! i"
      by (metis imageE)
    then have "k = i"
      using sub [OF k(1)] that slots_facts by (simp add: nth_eq_iff_index_eq)
    with k show "i \<in> set g" by simp
  next
    assume "i \<in> set g"
    then have "slots ! i \<in> (!) slots ` set g" by (rule imageI)
    then show "code (slot_times ! i) \<in> (!) slots ` set g"
      using that by (simp add: slots_nth)
  qed
  have "length (filter (\<lambda>e. Slot e \<in> set (map ((!) slots) g)) (extract_results labels 10 C sat sol)) =
      sum_list (map (\<lambda>i. if code (slot_times ! i) \<in> set (map ((!) slots) g) then ?n i else 0) [0..<10])"
    by (rule count_extract)
  also have "\<dots> = sum_list (map (\<lambda>i. if i \<in> set g then ?n i else 0) [0..<10])"
    by (rule arg_cong [where f = sum_list], rule map_cong) (simp_all add: G)
  also have "\<dots> = sum_list (map ?n (filter (\<lambda>i. i \<in> set g) [0..<10]))"
    by (simp only: sum_list_map_filter')
  also have "\<dots> = sum_list (map ?n g)" using g by simp
  finally have cnt: "length (filter (\<lambda>e. Slot e \<in> set (map ((!) slots) g))
      (extract_results labels 10 C sat sol)) = sum_list (map ?n g)" .
  have "\<And>i. i \<in> set g \<Longrightarrow> sum_list (map (\<lambda>j. sol (i, j)) [0..<C]) = real (?n i)"
  proof -
    fix i assume "i \<in> set g"
    then have "i < 10" by (rule sub)
    then have "\<forall>j \<in> set [0..<C]. sol (i, j) = 0 \<or> sol (i, j) = 1"
      using bool by (simp add: assignment_vars_mem)
    then show "sum_list (map (\<lambda>j. sol (i, j)) [0..<C]) = real (?n i)" by (rule bool_sum)
  qed
  then have "map (\<lambda>i. sum_list (map (\<lambda>j. sol (i, j)) [0..<C])) g = map (\<lambda>i. real (?n i)) g"
    by simp
  then have "eval_expr sol (sum_of (concat (map (\<lambda>i. map (\<lambda>j. (i, j)) [0..<C]) g))) =
      sum_list (map (\<lambda>i. real (?n i)) g)"
    by (simp only: eval_sum_of_keys)
  also have "\<dots> = real (sum_list (map ?n g))"
    by (induction g) auto
  finally show ?thesis using cnt by simp
qed

lemma assignment_problem_Inr:
  assumes "assignment_problem S C sat vc = Inr p"
  shows "variables p = assignment_vars S C \<and>
     objective p = map (\<lambda>(i, j). (sat ! i ! j, (i, j))) (assignment_vars S C) \<and>
     \<lparr>lhs = sum_of (concat (map (\<lambda>i. map (\<lambda>j. (i, j)) [0..<C]) mwf_slots)), rel = GE,
       rhs = real_of_int (set_min C)\<rparr> \<in> set (constraints p) \<and>
     \<lparr>lhs = sum_of (concat (map (\<lambda>i. map (\<lambda>j. (i, j)) [0..<C]) tt_slots)), rel = GE,
       rhs = real_of_int (set_min C)\<rparr> \<in> set (constraints p) \<and>
     (\<forall>g \<in> set time_groups.
        \<lparr>lhs = sum_of (concat (map (\<lambda>i. map (\<lambda>j. (i, j)) [0..<C]) g)), rel = GE,
          rhs = real_of_int (stime_min C)\<rparr> \<in> set (constraints p) \<and>
        \<lparr>lhs = sum_of (concat (map (\<lambda>i. map (\<lambda>j. (i, j)) [0..<C]) g)), rel = LE,
          rhs = real_of_int (stime_max C)\<rparr> \<in> set (constraints p)) \<and>
     (vc \<noteq> [] \<longrightarrow>
        \<lparr>lhs = sum_of (concat (map (\<lambda>i. map (\<lambda>j. (i, j)) vc) fas_slot)), rel = EQ,
          rhs = 0\<rparr> \<in> set (constraints p) \<and>
        set (concat (map (\<lambda>i. map (\<lambda>j. (i, j)) vc) fas_slot)) \<subseteq> set (assignment_vars S C)) \<and>
     set (concat (map (\<lambda>i. map (\<lambda>j. (i, j)) [0..<C]) tt_slots)) \<subseteq> set (assignment_vars S C)"
proof -
  let ?x = "assignment_vars S C"
  from assms obtain mwf tt times fas where
    mwf: "group_constraint ?x mwf_slots [0..<C] GE (set_min C) = Inr mwf"
    and tt: "group_constraint ?x tt_slots [0..<C] GE (set_min C) = Inr tt"
    and times: "map_err (\<lambda>time_slots.
          bind_err (group_constraint ?x time_slots [0..<C] GE (stime_min C)) (\<lambda>lo.
          bind_err (group_constraint ?x time_slots [0..<C] LE (stime_max C)) (\<lambda>hi.
          Inr [lo, hi]))) time_groups = Inr times"
    and fas: "(if vc \<noteq> []
                then bind_err (group_constraint ?x fas_slot vc EQ 0) (\<lambda>c. Inr [c])
                else Inr []) = Inr fas"
    and p: "p = \<lparr>variables = ?x, maximize = True,
           objective = map (\<lambda>(i, j). (sat ! i ! j, (i, j))) ?x,
           constraints = map (\<lambda>j. \<lparr>lhs = sum_of (map (\<lambda>i. (i, j)) [0..<S]),
                                 rel = EQ, rhs = 1\<rparr>) [0..<C] @ [mwf, tt] @ concat times @ fas\<rparr>"
    unfolding assignment_problem_def Let_def bind_err_Inr by auto
  have t: "\<forall>g \<in> set time_groups.
        \<lparr>lhs = sum_of (concat (map (\<lambda>i. map (\<lambda>j. (i, j)) [0..<C]) g)), rel = GE,
          rhs = real_of_int (stime_min C)\<rparr> \<in> set (concat times) \<and>
        \<lparr>lhs = sum_of (concat (map (\<lambda>i. map (\<lambda>j. (i, j)) [0..<C]) g)), rel = LE,
          rhs = real_of_int (stime_max C)\<rparr> \<in> set (concat times)"
  proof
    fix g assume "g \<in> set time_groups"
    from map_err_set [OF times this] obtain y where y: "y \<in> set times"
      "bind_err (group_constraint ?x g [0..<C] GE (stime_min C)) (\<lambda>lo.
          bind_err (group_constraint ?x g [0..<C] LE (stime_max C)) (\<lambda>hi.
          Inr [lo, hi])) = Inr y" by blast
    from y(2) obtain lo hi where
      lo: "group_constraint ?x g [0..<C] GE (stime_min C) = Inr lo"
      and hi: "group_constraint ?x g [0..<C] LE (stime_max C) = Inr hi"
      and "y = [lo, hi]"
      unfolding bind_err_Inr by auto
    with y(1) have "lo \<in> set (concat times)" "hi \<in> set (concat times)" by force+
    then show "\<lparr>lhs = sum_of (concat (map (\<lambda>i. map (\<lambda>j. (i, j)) [0..<C]) g)), rel = GE,
          rhs = real_of_int (stime_min C)\<rparr> \<in> set (concat times) \<and>
        \<lparr>lhs = sum_of (concat (map (\<lambda>i. map (\<lambda>j. (i, j)) [0..<C]) g)), rel = LE,
          rhs = real_of_int (stime_max C)\<rparr> \<in> set (concat times)"
      using group_constraint_Inr [OF lo] group_constraint_Inr [OF hi] by simp
  qed
  have f: "vc \<noteq> [] \<longrightarrow>
        \<lparr>lhs = sum_of (concat (map (\<lambda>i. map (\<lambda>j. (i, j)) vc) fas_slot)), rel = EQ,
          rhs = 0\<rparr> \<in> set fas \<and>
        set (concat (map (\<lambda>i. map (\<lambda>j. (i, j)) vc) fas_slot)) \<subseteq> set ?x"
  proof
    assume "vc \<noteq> []"
    with fas obtain c where c: "group_constraint ?x fas_slot vc EQ 0 = Inr c" and "fas = [c]"
      by (auto simp: bind_err_Inr)
    then show "\<lparr>lhs = sum_of (concat (map (\<lambda>i. map (\<lambda>j. (i, j)) vc) fas_slot)), rel = EQ,
          rhs = 0\<rparr> \<in> set fas \<and>
        set (concat (map (\<lambda>i. map (\<lambda>j. (i, j)) vc) fas_slot)) \<subseteq> set ?x"
      using group_constraint_Inr [OF c] by simp
  qed
  show ?thesis
    using group_constraint_Inr [OF mwf] group_constraint_Inr [OF tt] t f
    by (simp add: p)
qed


text \<open>
  \<open>optimize_schedule\<close> raises exactly when building the problem raises, and otherwise
  its outcome is decided by the backend's answer to \<open>submitted_problem\<close>.
\<close>

lemma optimize_schedule_submitted:
  "(submitted_problem solve_k noise sel cd fd = Inl e \<longrightarrow>
      optimize_schedule solve_k solve_a noise sel cd fd = Inl e) \<and>
   (submitted_problem solve_k noise sel cd fd = Inr p \<longrightarrow>
      (if status (solve_a p) = OPTIMAL
       then \<exists>res. optimize_schedule solve_k solve_a noise sel cd fd = Inr (Some res, None) \<and>
              satisfaction_total res = objective_value (solve_a p)
       else optimize_schedule solve_k solve_a noise sel cd fd =
              Inr (None, Some ''Optimization failed'')))"
  by (auto simp: submitted_problem_def optimize_schedule_def bind_err_def Let_def
      split: sum.splits prod.splits)

lemma satisfaction_matrix_Inr:
  assumes "satisfaction_matrix_of noise sel pop = Inr sat"
  shows "length (columns sel) \<le> length slots"
proof (rule ccontr)
  assume "\<not> length (columns sel) \<le> length slots"
  then have "length slots \<in> set [0..<length (columns sel)]" by simp
  from map_err_set [OF assms [unfolded satisfaction_matrix_of_def Let_def] this]
  show False by simp
qed

lemma groups_eval:
  "mwf_slots = [0, 2, 4, 6, 8]" "tt_slots = [1, 3, 5, 7, 9]"
  "time_groups = [[0, 1], [2, 3], [4, 5], [6, 7], [8, 9]]"
  "mwf_set = map ((!) slots) mwf_slots" "tt_set = map ((!) slots) tt_slots"
  by (simp_all add: mwf_slots_def tt_slots_def time_groups_def t900_def t1030_def t1200_def
      t130_def t300_def starting_at_def mwf_set_def tt_set_def slots_def slot_times_def mk_slot_def)

lemma groups_sorted:
  "filter (\<lambda>i. i \<in> set mwf_slots) [0..<10] = mwf_slots"
  "filter (\<lambda>i. i \<in> set tt_slots) [0..<10] = tt_slots"
  "\<forall>g \<in> set time_groups. filter (\<lambda>i. i \<in> set g) [0..<10] = g"
  by (simp_all add: groups_eval upt_rec)

lemma extract_results_0: "extract_results labels S 0 sat sol = []"
  by (simp add: extract_results_def concat_map_Nil)

lemma optimize_schedule_feasible:
  assumes ok: "optimize_schedule solve_k solve_a noise sel cd fd = Inr (Some res, msg)"
    and cert: "\<And>p. certified p (solve_a p)"
  obtains pop sc sat p where
    "get_slots_popularity solve_k sel = Inr (pop, sc)"
    "satisfaction_matrix_of noise sel pop = Inr sat"
    "assignment_problem (length (columns sel)) (length (index sel)) sat
       (voting_courses_of (index sel) cd fd) = Inr p"
    "feasible p (solution_value (solve_a p))"
    "results res = extract_results (index sel) (length (columns sel)) (length (index sel)) sat
       (solution_value (solve_a p))"
    "satisfaction_total res = eval_expr (solution_value (solve_a p)) (objective p)"
    "length (index sel) = 0 \<or> length (columns sel) = 10"
proof -
  from optimize_schedule_Some [OF ok] obtain pop sc sat p where
    s: "get_slots_popularity solve_k sel = Inr (pop, sc)"
      "satisfaction_matrix_of noise sel pop = Inr sat"
      "assignment_problem (length (columns sel)) (length (index sel)) sat
         (voting_courses_of (index sel) cd fd) = Inr p"
      "status (solve_a p) = OPTIMAL"
      "results res = extract_results (index sel) (length (columns sel)) (length (index sel)) sat
         (solution_value (solve_a p))"
      "satisfaction_total res = objective_value (solve_a p)"
    by metis
  from cert [of p] s(4) have c: "feasible p (solution_value (solve_a p))"
    "objective_value (solve_a p) = eval_expr (solution_value (solve_a p)) (objective p)"
    by (simp_all add: certified_def)
  have le: "length (columns sel) \<le> 10"
    using satisfaction_matrix_Inr [OF s(2)] by (simp add: slots_facts)
  have "length (columns sel) = 10" if "0 < length (index sel)"
  proof -
    have "(9, 0) \<in> set (concat (map (\<lambda>i. map (\<lambda>j. (i, j)) [0..<length (index sel)]) tt_slots))"
      using that by (simp add: groups_eval)
    then have "(9, 0) \<in> set (assignment_vars (length (columns sel)) (length (index sel)))"
      using assignment_problem_Inr [OF s(3)] by blast
    then show ?thesis using le by (simp add: assignment_vars_mem)
  qed
  then have "length (index sel) = 0 \<or> length (columns sel) = 10" by auto
  with s c show ?thesis using that by simp
qed

lemma group_bounds:
  assumes p: "assignment_problem 10 C sat vc = Inr p" and feas: "feasible p sol"
    and g: "filter (\<lambda>i. i \<in> set g) [0..<10] = g"
    and c: "\<lparr>lhs = sum_of (concat (map (\<lambda>i. map (\<lambda>j. (i, j)) [0..<C]) g)), rel = r,
             rhs = real_of_int b\<rparr> \<in> set (constraints p)"
  shows "(r = GE \<longrightarrow> b \<le> int (length (filter (\<lambda>e. Slot e \<in> set (map ((!) slots) g))
            (extract_results labels 10 C sat sol)))) \<and>
         (r = LE \<longrightarrow> int (length (filter (\<lambda>e. Slot e \<in> set (map ((!) slots) g))
            (extract_results labels 10 C sat sol))) \<le> b)"
proof -
  have "\<forall>v \<in> set (assignment_vars 10 C). sol v = 0 \<or> sol v = 1"
    using feas assignment_problem_Inr [OF p] by (simp add: feasible_def list_all_iff)
  from group_count [OF g this]
  have eq: "real (length (filter (\<lambda>e. Slot e \<in> set (map ((!) slots) g))
           (extract_results labels 10 C sat sol))) =
         eval_expr sol (sum_of (concat (map (\<lambda>i. map (\<lambda>j. (i, j)) [0..<C]) g)))" .
  have "holds sol \<lparr>lhs = sum_of (concat (map (\<lambda>i. map (\<lambda>j. (i, j)) [0..<C]) g)), rel = r,
             rhs = real_of_int b\<rparr>"
    using feas c by (simp add: feasible_def list_all_iff)
  then have "(r = GE \<longrightarrow> real_of_int b \<le> real_of_int (int (length (filter
            (\<lambda>e. Slot e \<in> set (map ((!) slots) g)) (extract_results labels 10 C sat sol))))) \<and>
         (r = LE \<longrightarrow> real_of_int (int (length (filter
            (\<lambda>e. Slot e \<in> set (map ((!) slots) g)) (extract_results labels 10 C sat sol))))
            \<le> real_of_int b)"
    using eq by (auto simp: holds_def)
  then show ?thesis
    by (simp only: of_int_le_iff)
qed

lemma eval_objective:
  "eval_expr sol (map (\<lambda>(i, j). (f i j, (i, j))) (concat (map (\<lambda>i. map (\<lambda>j. (i, j)) cols) rows))) =
     sum_list (map (\<lambda>i. sum_list (map (\<lambda>j. f i j * sol (i, j)) cols)) rows)"
proof (induction rows)
  case Nil
  show ?case by (simp add: eval_expr_def)
next
  case (Cons i rows)
  have "eval_expr sol (map (\<lambda>(i, j). (f i j, (i, j))) (map (\<lambda>j. (i, j)) cols)) =
      sum_list (map (\<lambda>j. f i j * sol (i, j)) cols)"
    by (simp add: eval_expr_def comp_def)
  with Cons show ?case by (simp add: eval_expr_append)
qed

lemma inner_sum:
  "sum_list (map h (concat (map (\<lambda>j. if c j then [e j] else []) js))) =
     sum_list (map (\<lambda>j. if c j then h (e j) else (0::real)) js)"
  by (induction js) auto

lemma sum_list_concat_real: "sum_list (concat xss) = sum_list (map sum_list xss)"
  for xss :: "real list list"
  by (induction xss) auto

lemma sum_results:
  "sum_list (map Satisfaction (extract_results labels S C sat sol)) =
     sum_list (map (\<lambda>i. sum_list (map (\<lambda>j. if sol (i, j) > 0 then sat ! i ! j else 0) [0..<C]))
       [0..<S])"
proof -
  have "\<And>i. sum_list (map Satisfaction (concat (map (\<lambda>j.
       if sol (i, j) > 0
       then [\<lparr>Course = labels ! j, Slot = code (slot_times ! i),
              Time = label (slot_times ! i), Satisfaction = sat ! i ! j\<rparr>]
       else []) [0..<C]))) =
     sum_list (map (\<lambda>j. if sol (i, j) > 0 then sat ! i ! j else 0) [0..<C])"
    by (simp add: inner_sum cong: if_cong)
  then show ?thesis
    by (simp add: extract_results_def map_concat sum_list_concat_real comp_def)
qed

lemma in_set_concat_map: "x \<in> set (concat (map f xs)) \<longleftrightarrow> (\<exists>y \<in> set xs. x \<in> set (f y))"
  by auto

lemma in_extract_results:
  "e \<in> set (extract_results labels S C sat sol) \<longleftrightarrow>
     (\<exists>i < S. \<exists>j < C. sol (i, j) > 0 \<and>
        e = \<lparr>Course = labels ! j, Slot = code (slot_times ! i),
             Time = label (slot_times ! i), Satisfaction = sat ! i ! j\<rparr>)"
proof
  assume "e \<in> set (extract_results labels S C sat sol)"
  then obtain i j where "i < S" "j < C"
    "e \<in> set (if sol (i, j) > 0
       then [\<lparr>Course = labels ! j, Slot = code (slot_times ! i),
              Time = label (slot_times ! i), Satisfaction = sat ! i ! j\<rparr>]
       else [])"
    unfolding extract_results_def by auto
  then show "\<exists>i < S. \<exists>j < C. sol (i, j) > 0 \<and>
        e = \<lparr>Course = labels ! j, Slot = code (slot_times ! i),
             Time = label (slot_times ! i), Satisfaction = sat ! i ! j\<rparr>"
    by (cases "sol (i, j) > 0") auto
next
  assume "\<exists>i < S. \<exists>j < C. sol (i, j) > 0 \<and>
        e = \<lparr>Course = labels ! j, Slot = code (slot_times ! i),
             Time = label (slot_times ! i), Satisfaction = sat ! i ! j\<rparr>"
  then obtain i j where ij: "i < S" "j < C" "sol (i, j) > 0"
    "e = \<lparr>Course = labels ! j, Slot = code (slot_times ! i),
             Time = label (slot_times ! i), Satisfaction = sat ! i ! j\<rparr>"
    by blast
  then have "e \<in> set (if sol (i, j) > 0
       then [\<lparr>Course = labels ! j, Slot = code (slot_times ! i),
              Time = label (slot_times ! i), Satisfaction = sat ! i ! j\<rparr>]
       else [])"
    by simp
  with ij(1,2) show "e \<in> set (extract_results labels S C sat sol)"
    unfolding extract_results_def in_set_concat_map
    by (intro bexI [of _ i] bexI [of _ j]) simp_all
qed





lemma empty_problem_feasible: "feasible empty_problem (\<lambda>v. 0)"
  by (simp add: feasible_def empty_problem_def holds_def eval_expr_def)

subsection \<open>The claims\<close>


text \<open>
  C2. Whatever the slot, the popularity map and the noise draw, a preference rank of 0
  gives a satisfaction of exactly 0: the function returns before it reads the map.
\<close>

theorem get_satisfaction_unranked:
  "get_satisfaction slot 0 pop r = Inr 0"
  by (simp add: get_satisfaction_def)

text \<open>
  C7. For a positive rank and a slot whose popularity is \<open>p\<close>, with a draw \<open>r\<close> of
  \<^verbatim>\<open>randint(1, 10)\<close>, the satisfaction is \<open>max 0 ((5 - rank) - p + noise)\<close> where
  \<open>noise = r / 10\<close> is positive and at most 1, and the value returned is not negative.
\<close>

theorem get_satisfaction_ranked:
  assumes "0 < preference"
    and "map_of pop slot = Some p"
    and "1 \<le> r" and "r \<le> 10"
  shows "get_satisfaction slot preference pop r =
           Inr (max 0 ((5 - real_of_int preference) - p + real_of_int r / 10)) \<and>
         0 < real_of_int r / 10 \<and> real_of_int r / 10 \<le> 1 \<and>
         (\<forall>v. get_satisfaction slot preference pop r = Inr v \<longrightarrow> 0 \<le> v)"
proof -
  have eq: "get_satisfaction slot preference pop r =
           Inr (max 0 ((5 - real_of_int preference) - p + real_of_int r / 10))"
    using assms(1,2) by (simp add: get_satisfaction_def Let_def max.commute)
  then have nonneg: "\<forall>v. get_satisfaction slot preference pop r = Inr v \<longrightarrow> 0 \<le> v"
    by auto
  have "0 < real_of_int r / 10" using assms(3) by simp
  moreover have "real_of_int r / 10 \<le> 1" using assms(4) by simp
  ultimately show ?thesis using eq nonneg by blast
qed

theorem get_satisfaction_ranked_witness:
  "(0::int) < 2 \<and> map_of [(''s1'', 1/2 :: real)] ''s1'' = Some (1/2) \<and>
   (1::int) \<le> 3 \<and> (3::int) \<le> 10 \<and>
   get_satisfaction ''s1'' 2 [(''s1'', 1/2)] 3 = Inr (28 / 10)"
  using get_satisfaction_ranked [of 2 "[(''s1'', 1/2)]" "''s1''" "1/2" 3]
  by simp



text \<open>
  C8, as the code has it. When every row of the table is entirely zero,
  \<open>get_slots_popularity\<close> returns, whatever the backend, the popularity 0.5 for every
  column together with the disagreement score 0, and raises nothing.
\<close>

theorem get_slots_popularity_all_zero:
  assumes "list_all (\<lambda>row. list_all (\<lambda>v. v = 0) row) (vals data)"
  shows "get_slots_popularity solve data = Inr (fromkeys (columns data) (1 / 2), Score 0) \<and>
         (\<forall>slot \<in> set (columns data).
            map_of (fromkeys (columns data) (1 / 2)) slot = Some (1 / 2))"
proof -
  have "filter (\<lambda>row. \<not> list_all (\<lambda>v. v = 0) row) (vals data) = []"
    using assms by (simp add: list_all_iff filter_empty_conv)
  then show ?thesis
    by (simp add: get_slots_popularity_def Let_def map_of_fromkeys)
qed

theorem get_slots_popularity_all_zero_witness:
  "list_all (\<lambda>row. list_all (\<lambda>v. v = 0) row) (vals zero_table) \<and>
   get_slots_popularity idle_solver zero_table =
     Inr (fromkeys (columns zero_table) (1 / 2), Score 0) \<and>
   map_of (fromkeys (columns zero_table) (1 / 2)) ''s2'' = Some (1 / 2)"
proof -
  have h: "list_all (\<lambda>row. list_all (\<lambda>v. v = 0) row) (vals zero_table)"
    by (simp add: zero_table_def)
  have "''s2'' \<in> set (columns zero_table)"
    by (simp add: zero_table_def)
  then show ?thesis
    using h get_slots_popularity_all_zero [OF h, of idle_solver] by blast
qed

text \<open>
  C8 as the claim states it asks for an infinite disagreement score. On a table of
  one all-zero row the score returned is 0.
\<close>

theorem get_slots_popularity_all_zero_score:
  "get_slots_popularity idle_solver zero_table =
     Inr ([(''s1'', 1 / 2), (''s2'', 1 / 2)], Score 0) \<and> Score 0 \<noteq> Infinite"
  by code_simp

text \<open>
  C4. Once the popularity, the satisfaction matrix and the assignment problem have been
  built (nothing raised before the solve), a backend status other than \<open>OPTIMAL\<close>
  makes \<open>optimize_schedule\<close> return no record and the message
  \<^verbatim>\<open>Optimization failed\<close>; and whenever a record is returned the status was \<open>OPTIMAL\<close>.
\<close>

theorem optimize_schedule_not_optimal:
  assumes "get_slots_popularity solve_k sel = Inr (pop, sc)"
    and "satisfaction_matrix_of noise sel pop = Inr sat"
    and "assignment_problem (length (columns sel)) (length (index sel)) sat
           (voting_courses_of (index sel) cd fd) = Inr p"
  shows "(status (solve_a p) \<noteq> OPTIMAL \<longrightarrow>
            optimize_schedule solve_k solve_a noise sel cd fd =
              Inr (None, Some ''Optimization failed'')) \<and>
         (\<forall>res msg. optimize_schedule solve_k solve_a noise sel cd fd = Inr (Some res, msg)
            \<longrightarrow> status (solve_a p) = OPTIMAL)"
  using assms by (simp add: optimize_schedule_def bind_err_def Let_def)

theorem optimize_schedule_not_optimal_witness:
  "get_slots_popularity idle_solver demo_table = Inr (fromkeys slots (1 / 2), Score 0) \<and>
   satisfaction_matrix_of (\<lambda>s i. 5) demo_table (fromkeys slots (1 / 2)) = Inr demo_sat \<and>
   optimize_schedule idle_solver idle_solver (\<lambda>s i. 5) demo_table demo_courses
     (Some demo_faculty) = Inr (None, Some ''Optimization failed'')"
proof -
  have h1: "get_slots_popularity idle_solver demo_table = Inr (fromkeys slots (1 / 2), Score 0)"
    by code_simp
  have h2: "satisfaction_matrix_of (\<lambda>s i. 5) demo_table (fromkeys slots (1 / 2)) = Inr demo_sat"
    by code_simp
  let ?q = "assignment_problem (length (columns demo_table)) (length (index demo_table)) demo_sat
              (voting_courses_of (index demo_table) demo_courses (Some demo_faculty))"
  have "\<not> isl ?q" by code_simp
  then have h3: "?q = Inr (projr ?q)" by simp
  have "status (idle_solver (projr ?q)) \<noteq> OPTIMAL"
    by (simp add: idle_solver_def)
  then show ?thesis
    using h1 h2 optimize_schedule_not_optimal [OF h1 h2 h3, of idle_solver] by blast
qed

text \<open>
  C9, as the code has it. With no course (and columns that are the first slots of the
  catalog, each once), \<open>optimize_schedule\<close> raises nothing and does call the
  assignment backend, on the problem without variables, which the all-zero point
  satisfies; the backend answering \<open>OPTIMAL\<close> there, the value returned is the record
  with the empty assignment list and no message, not a failure.
\<close>

theorem optimize_schedule_no_course:
  assumes "index sel = []" and "vals sel = []"
    and "length (columns sel) \<le> length slots"
    and "list_all (\<lambda>s. count_list (columns sel) (slots ! s) = 1) [0..<length (columns sel)]"
    and "status (solve_a empty_problem) = OPTIMAL"
  shows "submitted_problem solve_k noise sel cd fd = Inr empty_problem \<and>
     optimize_schedule solve_k solve_a noise sel cd fd =
       Inr (Some \<lparr>results = [],
                  stats = calculate_stats [] [] 0 (length (columns sel)),
                  output_matrix = [],
                  satisfaction_total = objective_value (solve_a empty_problem),
                  slot_popularity = fromkeys (columns sel) (1 / 2),
                  kemeny_score = Score 0\<rparr>, None)"
proof -
  have pop: "get_slots_popularity solve_k sel = Inr (fromkeys (columns sel) (1 / 2), Score 0)"
    using assms(2) by (simp add: get_slots_popularity_def)
  have "\<And>s. s < length (columns sel) \<Longrightarrow> count_list (columns sel) (slots ! s) = 1"
    using assms(4) by (simp add: list_all_iff)
  then have sat: "satisfaction_matrix_of noise sel (fromkeys (columns sel) (1 / 2)) =
      Inr (replicate (length (columns sel)) [])"
    using assms(1,3) by (intro satisfaction_matrix_0) auto
  have sub: "submitted_problem solve_k noise sel cd fd = Inr empty_problem"
    using assms(1)
    by (simp add: submitted_problem_def pop sat bind_err_def voting_courses_of_Nil
        assignment_problem_0)
  have run: "optimize_schedule solve_k solve_a noise sel cd fd =
       Inr (Some \<lparr>results = [],
                  stats = calculate_stats [] [] 0 (length (columns sel)),
                  output_matrix = [],
                  satisfaction_total = objective_value (solve_a empty_problem),
                  slot_popularity = fromkeys (columns sel) (1 / 2),
                  kemeny_score = Score 0\<rparr>, None)"
    using assms(1,5)
    by (simp add: optimize_schedule_def pop sat bind_err_def voting_courses_of_Nil
        assignment_problem_0 Let_def extract_results_def output_of_def concat_map_Nil)
  from sub run show ?thesis by simp
qed

theorem optimize_schedule_no_course_witness:
  "index empty_table = [] \<and> vals empty_table = [] \<and>
   length (columns empty_table) \<le> length slots \<and>
   list_all (\<lambda>s. count_list (columns empty_table) (slots ! s) = 1)
     [0..<length (columns empty_table)] \<and>
   status (checking_solver [] empty_problem) = OPTIMAL \<and>
   submitted_problem (checking_solver []) (\<lambda>s i. 5) empty_table [] None = Inr empty_problem \<and>
   optimize_schedule (checking_solver []) (checking_solver []) (\<lambda>s i. 5) empty_table [] None =
     Inr (Some \<lparr>results = [],
                stats = calculate_stats [] [] 0 (length (columns empty_table)),
                output_matrix = [],
                satisfaction_total = objective_value (checking_solver [] empty_problem),
                slot_popularity = fromkeys (columns empty_table) (1 / 2),
                kemeny_score = Score 0\<rparr>, None)"
proof -
  have h1: "index empty_table = []" and h2: "vals empty_table = []"
    by (simp_all add: empty_table_def)
  have h3: "length (columns empty_table) \<le> length slots"
    by (simp add: empty_table_def)
  have h4: "list_all (\<lambda>s. count_list (columns empty_table) (slots ! s) = 1)
     [0..<length (columns empty_table)]"
    by code_simp
  have h5: "status (checking_solver [] empty_problem) = OPTIMAL"
    by code_simp
  show ?thesis
    using h1 h2 h3 h4 h5
      optimize_schedule_no_course [where sel = empty_table and solve_a = "checking_solver []"
        and solve_k = "checking_solver []" and noise = "\<lambda>s i. 5" and cd = "[]" and fd = None]
    by simp
qed

text \<open>
  C9 as the claim states it has the empty result reported without the assignment
  backend being invoked. On the empty table the backend is handed a problem, the one
  without variables, and it is its \<open>OPTIMAL\<close> answer that lets the record be returned.
\<close>

theorem optimize_schedule_no_course_solve:
  "submitted_problem (checking_solver []) (\<lambda>s i. 5) empty_table [] None = Inr empty_problem \<and>
   variables empty_problem = [] \<and>
   status (checking_solver [] empty_problem) = OPTIMAL"
  by code_simp

text \<open>
  C5. Whenever \<open>optimize_schedule\<close> returns a record, the backend's \<open>OPTIMAL\<close> answers
  satisfying the problem they answer, the entries assigned to the MWF slots and the
  entries assigned to the TT slots each number at least \<open>\<lceil>C / 2\<rceil> - 1\<close>, where \<open>C\<close> is
  the number of courses.
\<close>

theorem optimize_schedule_day_balance:
  assumes "optimize_schedule solve_k solve_a noise sel cd fd = Inr (Some res, msg)"
    and "\<And>p. certified p (solve_a p)"
  shows "\<lceil>real (length (index sel)) / 2\<rceil> - 1 \<le>
           int (length (filter (\<lambda>e. Slot e \<in> set mwf_set) (results res))) \<and>
         \<lceil>real (length (index sel)) / 2\<rceil> - 1 \<le>
           int (length (filter (\<lambda>e. Slot e \<in> set tt_set) (results res)))"
proof -
  from optimize_schedule_feasible [OF assms] obtain sat p where
    p: "assignment_problem (length (columns sel)) (length (index sel)) sat
       (voting_courses_of (index sel) cd fd) = Inr p"
    and feas: "feasible p (solution_value (solve_a p))"
    and res: "results res = extract_results (index sel) (length (columns sel))
       (length (index sel)) sat (solution_value (solve_a p))"
    and shape: "length (index sel) = 0 \<or> length (columns sel) = 10"
    by metis
  show ?thesis
  proof (cases "length (index sel) = 0")
    case True
    then show ?thesis by (simp add: res extract_results_0)
  next
    case False
    with shape have ten: "length (columns sel) = 10" by simp
    note q = assignment_problem_Inr [OF p [unfolded ten]]
    have "set_min (length (index sel)) \<le>
        int (length (filter (\<lambda>e. Slot e \<in> set (map ((!) slots) mwf_slots)) (results res)))"
      using group_bounds [OF p [unfolded ten] feas groups_sorted(1), of GE] q
      by (simp add: res ten)
    moreover have "set_min (length (index sel)) \<le>
        int (length (filter (\<lambda>e. Slot e \<in> set (map ((!) slots) tt_slots)) (results res)))"
      using group_bounds [OF p [unfolded ten] feas groups_sorted(2), of GE] q
      by (simp add: res ten)
    ultimately show ?thesis
      by (simp add: set_min_def groups_eval(4,5))
  qed
qed

theorem optimize_schedule_day_balance_witness:
  "optimize_schedule (checking_solver []) (checking_solver [(0, 0), (9, 1)]) (\<lambda>s i. 5)
     demo_table demo_courses (Some demo_faculty) = Inr (Some (demo_result ''C1'' ''C2''), None) \<and>
   \<lceil>real (length (index demo_table)) / 2\<rceil> - 1 \<le>
     int (length (filter (\<lambda>e. Slot e \<in> set mwf_set) (results (demo_result ''C1'' ''C2'')))) \<and>
   \<lceil>real (length (index demo_table)) / 2\<rceil> - 1 \<le>
     int (length (filter (\<lambda>e. Slot e \<in> set tt_set) (results (demo_result ''C1'' ''C2''))))"
  using optimize_schedule_day_balance [OF demo_run_solved checking_solver_certified] demo_run_solved
  by blast

text \<open>
  C6. Whenever \<open>optimize_schedule\<close> returns a record, the backend's \<open>OPTIMAL\<close> answers
  satisfying the problem they answer, for each of the five start-time groups the number
  of entries assigned to a slot of the group lies between \<open>\<lfloor>C / 5\<rfloor>\<close> and
  \<open>\<lfloor>C / 5\<rfloor> + 2\<close>, where \<open>C\<close> is the number of courses.
\<close>

theorem optimize_schedule_time_balance:
  assumes "optimize_schedule solve_k solve_a noise sel cd fd = Inr (Some res, msg)"
    and "\<And>p. certified p (solve_a p)"
  shows "\<forall>g \<in> set time_groups.
           \<lfloor>real (length (index sel)) / 5\<rfloor> \<le>
             int (length (filter (\<lambda>e. Slot e \<in> set (map ((!) slots) g)) (results res))) \<and>
           int (length (filter (\<lambda>e. Slot e \<in> set (map ((!) slots) g)) (results res))) \<le>
             \<lfloor>real (length (index sel)) / 5\<rfloor> + 2"
proof -
  from optimize_schedule_feasible [OF assms] obtain sat p where
    p: "assignment_problem (length (columns sel)) (length (index sel)) sat
       (voting_courses_of (index sel) cd fd) = Inr p"
    and feas: "feasible p (solution_value (solve_a p))"
    and res: "results res = extract_results (index sel) (length (columns sel))
       (length (index sel)) sat (solution_value (solve_a p))"
    and shape: "length (index sel) = 0 \<or> length (columns sel) = 10"
    by metis
  show ?thesis
  proof (cases "length (index sel) = 0")
    case True
    then show ?thesis by (simp add: res extract_results_0)
  next
    case False
    with shape have ten: "length (columns sel) = 10" by simp
    note q = assignment_problem_Inr [OF p [unfolded ten]]
    show ?thesis
    proof
      fix g assume g: "g \<in> set time_groups"
      then have srt: "filter (\<lambda>i. i \<in> set g) [0..<10] = g"
        using groups_sorted(3) by blast
      have lo: "stime_min (length (index sel)) \<le>
          int (length (filter (\<lambda>e. Slot e \<in> set (map ((!) slots) g)) (results res)))"
        using group_bounds [OF p [unfolded ten] feas srt, of GE] q g
        by (simp add: res ten)
      have hi: "int (length (filter (\<lambda>e. Slot e \<in> set (map ((!) slots) g)) (results res))) \<le>
          stime_max (length (index sel))"
        using group_bounds [OF p [unfolded ten] feas srt, of LE] q g
        by (simp add: res ten)
      from lo hi show "\<lfloor>real (length (index sel)) / 5\<rfloor> \<le>
             int (length (filter (\<lambda>e. Slot e \<in> set (map ((!) slots) g)) (results res))) \<and>
           int (length (filter (\<lambda>e. Slot e \<in> set (map ((!) slots) g)) (results res))) \<le>
             \<lfloor>real (length (index sel)) / 5\<rfloor> + 2"
        by (simp add: stime_min_def stime_max_def)
    qed
  qed
qed


theorem optimize_schedule_time_balance_witness:
  "optimize_schedule (checking_solver []) (checking_solver [(0, 0), (9, 1)]) (\<lambda>s i. 5)
     demo_table demo_courses (Some demo_faculty) = Inr (Some (demo_result ''C1'' ''C2''), None) \<and>
   t900 \<in> set time_groups \<and>
   \<lfloor>real (length (index demo_table)) / 5\<rfloor> \<le>
     int (length (filter (\<lambda>e. Slot e \<in> set (map ((!) slots) t900))
       (results (demo_result ''C1'' ''C2'')))) \<and>
   int (length (filter (\<lambda>e. Slot e \<in> set (map ((!) slots) t900))
       (results (demo_result ''C1'' ''C2'')))) \<le> \<lfloor>real (length (index demo_table)) / 5\<rfloor> + 2"
proof -
  have g: "t900 \<in> set time_groups" by (simp add: time_groups_def)
  show ?thesis
    using optimize_schedule_time_balance [OF demo_run_solved checking_solver_certified]
      demo_run_solved g by blast
qed

text \<open>
  C10. Whenever \<open>optimize_schedule\<close> returns a record, the backend's \<open>OPTIMAL\<close> answers
  satisfying the problem they answer and reporting its objective at their solution,
  \<open>satisfaction_total\<close> is the sum of the \<open>Satisfaction\<close> of the entries of \<open>results\<close>,
  and the \<open>Satisfaction\<close> of each entry is the value of the satisfaction matrix at the
  slot and the course of the entry.
\<close>

theorem optimize_schedule_satisfaction_total:
  assumes "optimize_schedule solve_k solve_a noise sel cd fd = Inr (Some res, msg)"
    and "\<And>p. certified p (solve_a p)"
    and "get_slots_popularity solve_k sel = Inr (pop, sc)"
    and "satisfaction_matrix_of noise sel pop = Inr sat"
  shows "satisfaction_total res = sum_list (map Satisfaction (results res)) \<and>
         (\<forall>e \<in> set (results res). \<exists>i j. i < length (columns sel) \<and> j < length (index sel) \<and>
            Slot e = code (slot_times ! i) \<and> Course e = index sel ! j \<and>
            Satisfaction e = sat ! i ! j)"
proof -
  from optimize_schedule_feasible [OF assms(1,2)] obtain pop' sc' sat' p where
    s: "get_slots_popularity solve_k sel = Inr (pop', sc')"
      "satisfaction_matrix_of noise sel pop' = Inr sat'"
    and p: "assignment_problem (length (columns sel)) (length (index sel)) sat'
       (voting_courses_of (index sel) cd fd) = Inr p"
    and feas: "feasible p (solution_value (solve_a p))"
    and res: "results res = extract_results (index sel) (length (columns sel))
       (length (index sel)) sat' (solution_value (solve_a p))"
    and tot: "satisfaction_total res = eval_expr (solution_value (solve_a p)) (objective p)"
    by metis
  from s assms(3,4) have sat: "sat' = sat" by simp
  let ?sol = "solution_value (solve_a p)"
  let ?S = "length (columns sel)" and ?C = "length (index sel)"
  note q = assignment_problem_Inr [OF p]
  have bool: "\<And>i j. i < ?S \<Longrightarrow> j < ?C \<Longrightarrow> ?sol (i, j) = 0 \<or> ?sol (i, j) = 1"
    using feas q by (simp add: feasible_def list_all_iff assignment_vars_mem)
  have "satisfaction_total res =
      sum_list (map (\<lambda>i. sum_list (map (\<lambda>j. sat ! i ! j * ?sol (i, j)) [0..<?C])) [0..<?S])"
    using q by (simp add: tot sat assignment_vars_def eval_objective)
  also have "\<dots> =
      sum_list (map (\<lambda>i. sum_list (map (\<lambda>j. if ?sol (i, j) > 0 then sat ! i ! j else 0) [0..<?C]))
        [0..<?S])"
  proof (rule arg_cong [where f = sum_list], rule map_cong [OF refl],
      rule arg_cong [where f = sum_list], rule map_cong [OF refl])
    fix i j assume "i \<in> set [0..<?S]" "j \<in> set [0..<?C]"
    then have "?sol (i, j) = 0 \<or> ?sol (i, j) = 1" using bool by simp
    then show "sat ! i ! j * ?sol (i, j) = (if ?sol (i, j) > 0 then sat ! i ! j else 0)"
      by auto
  qed
  also have "\<dots> = sum_list (map Satisfaction (results res))"
    by (simp add: res sat sum_results)
  finally have total: "satisfaction_total res = sum_list (map Satisfaction (results res))" .
  have "\<forall>e \<in> set (results res). \<exists>i j. i < ?S \<and> j < ?C \<and>
            Slot e = code (slot_times ! i) \<and> Course e = index sel ! j \<and>
            Satisfaction e = sat ! i ! j"
  proof
    fix e assume "e \<in> set (results res)"
    then obtain i j where "i < ?S" "j < ?C"
      "e = \<lparr>Course = index sel ! j, Slot = code (slot_times ! i),
             Time = label (slot_times ! i), Satisfaction = sat ! i ! j\<rparr>"
      unfolding res sat in_extract_results by blast
    then show "\<exists>i j. i < ?S \<and> j < ?C \<and>
            Slot e = code (slot_times ! i) \<and> Course e = index sel ! j \<and>
            Satisfaction e = sat ! i ! j"
      by (intro exI [of _ i] exI [of _ j]) simp
  qed
  with total show ?thesis by simp
qed

theorem optimize_schedule_satisfaction_total_witness:
  "optimize_schedule (checking_solver []) (checking_solver [(0, 0), (9, 1)]) (\<lambda>s i. 5)
     demo_table demo_courses (Some demo_faculty) = Inr (Some (demo_result ''C1'' ''C2''), None) \<and>
   get_slots_popularity (checking_solver []) demo_table = Inr (fromkeys slots (1 / 2), Score 0) \<and>
   satisfaction_matrix_of (\<lambda>s i. 5) demo_table (fromkeys slots (1 / 2)) = Inr demo_sat \<and>
   satisfaction_total (demo_result ''C1'' ''C2'') =
     sum_list (map Satisfaction (results (demo_result ''C1'' ''C2'')))"
proof -
  have h1: "get_slots_popularity (checking_solver []) demo_table =
      Inr (fromkeys slots (1 / 2), Score 0)"
    by code_simp
  have h2: "satisfaction_matrix_of (\<lambda>s i. 5) demo_table (fromkeys slots (1 / 2)) = Inr demo_sat"
    by code_simp
  show ?thesis
    using optimize_schedule_satisfaction_total
      [OF demo_run_solved checking_solver_certified h1 h2] demo_run_solved h1 h2
    by blast
qed



end
